theory Spec2Isabelle
  imports Complex_Main "HOL-Library.Char_ord" "HOL-Library.List_Lexorder" "HOL-Library.Sublist"
begin

section \<open>Data model\<close>

text \<open>
  One row of the data frame \<^verbatim>\<open>self.df\<close> read by \<^verbatim>\<open>DuplicateDetectorFinal.__init__\<close>.
  A cell for which \<^verbatim>\<open>pd.isna\<close> holds is \<open>None\<close>. Card ids, names and house
  numbers are text cells (the extraction step names a card by the stem of its file name).
  The face encoding is the array produced by \<^verbatim>\<open>_load_encoding\<close>; its entries are
  machine numbers, of a type \<open>'f\<close> that is left open.
\<close>

record 'f voter_record =
  card_id :: string
  name :: "string option"
  father_husband_name :: "string option"
  age :: "int option"
  gender :: "string option"
  house_number :: "string option"
  face_encoding :: "'f list option"
  face_path :: "string option"

text \<open>
  The dictionaries appended by the four detectors, tagged by their \<^verbatim>\<open>fraud_type\<close>.
  The key \<^verbatim>\<open>name\<close> of a FAKE_DETAILS dictionary is the selector \<open>details_name\<close> and the
  key \<^verbatim>\<open>house_number\<close> of an ADDRESS_ANOMALY dictionary is \<open>anomaly_house_number\<close>
  (both names are taken by the fields of \<open>voter_record\<close>). An age cell is the number or
  \<open>None\<close> for the text N/A. The two numbers of a FAKE_FACE dictionary are machine numbers.
\<close>

datatype 'f fraud_finding =
  FAKE_DETAILS (card_1: string) (card_2: string) (details_name: string)
    (father_husband: string) (age_1: "int option") (age_2: "int option")
    (gender_1: string) (gender_2: string) (matching_fields: string)
    (confidence: string) (likelihood: string)
| FAKE_FACE (card_1: string) (card_2: string) (name_1: string) (name_2: string)
    (father_1: string) (father_2: string) (face_similarity_percent: 'f)
    (confidence_score: 'f) (details_evidence: string) (likelihood: string)
| DUPLICATE_PHOTO (card_1: string) (card_2: string) (name_1: string) (name_2: string)
    (father_1: string) (father_2: string) (photo_similarity: real)
    (hash_difference: nat) (likelihood: string)
| ADDRESS_ANOMALY (anomaly_house_number: string) (voter_count: nat) (unique_names: nat)
    (unique_fathers: nat) (risk_level: string) (cards: string) (likelihood: string)

text \<open>An error a detection run could be rejected with.\<close>

datatype run_error = RunError string

section \<open>Helpers of the host language\<close>

text \<open>\<^verbatim>\<open>x if pd.notna(x) else 'N/A'\<close> on a text cell.\<close>

definition or_na :: "string option \<Rightarrow> string" where
  "or_na x = (case x of None \<Rightarrow> ''N/A'' | Some s \<Rightarrow> s)"

text \<open>\<^verbatim>\<open>sep.join(xs)\<close>.\<close>

fun join_str :: "string \<Rightarrow> string list \<Rightarrow> string" where
  "join_str sep [] = []"
| "join_str sep [x] = x"
| "join_str sep (x # y # ys) = x @ sep @ join_str sep (y # ys)"

text \<open>The decimal text of a count, as an f-string prints it.\<close>

fun string_of_nat :: "nat \<Rightarrow> string" where
  "string_of_nat n =
     (if n < 10 then [char_of (48 + n)]
      else string_of_nat (n div 10) @ [char_of (48 + n mod 10)])"

text \<open>
  \<^verbatim>\<open>round(x, ndigits)\<close> on a real number: the nearest multiple of \<open>10 ^ -ndigits\<close>,
  a tie going to the even one. The photo similarity is rounded with it (its values, a
  multiple of 1/64 times 100, are exact in the machine's arithmetic), and so are the
  numbers of the example arithmetic further down.
\<close>

definition round_half_even :: "real \<Rightarrow> int" where
  "round_half_even x =
     (let f = \<lfloor>x\<rfloor>; d = x - of_int f
      in if d < 1 / 2 then f else if 1 / 2 < d then f + 1 else if even f then f else f + 1)"

definition py_round :: "real \<Rightarrow> nat \<Rightarrow> real" where
  "py_round x ndigits = of_int (round_half_even (x * 10 ^ ndigits)) / 10 ^ ndigits"

text \<open>The UTF-8 bytes of the siren sign U+1F6A8 that starts two of the likelihood texts.\<close>

definition siren :: string where
  "siren = [CHR 0xF0, CHR 0x9F, CHR 0x9A, CHR 0xA8]"

section \<open>The pairwise scan\<close>

text \<open>
  \<^verbatim>\<open>for i in range(len(xs)): for j in range(i + 1, len(xs)):\<close> with the two rows
  read at \<open>i\<close> and \<open>j\<close>: the pairs in scan order.
\<close>

definition pairs :: "'a list \<Rightarrow> ('a \<times> 'a) list" where
  "pairs xs =
     concat (map (\<lambda>i. map (\<lambda>j. (xs ! i, xs ! j)) [Suc i..<length xs]) [0..<length xs])"

text \<open>
  The loop body either reaches \<^verbatim>\<open>continue\<close> (\<open>None\<close>) or appends one dictionary
  (\<open>Some\<close>) to the result list.
\<close>

definition scan_pairs :: "('a \<Rightarrow> 'a \<Rightarrow> 'b option) \<Rightarrow> 'a list \<Rightarrow> 'b list" where
  "scan_pairs body xs = List.map_filter (\<lambda>(x, y). body x y) (pairs xs)"

section \<open>Scenario 1: fake details\<close>

definition fake_details_pair :: "'f voter_record \<Rightarrow> 'f voter_record \<Rightarrow> 'f fraud_finding option" where
  "fake_details_pair row1 row2 =
     (if name row1 = None \<or> name row2 = None then None
      else if father_husband_name row1 = None \<or> father_husband_name row2 = None then None
      else if name row1 \<noteq> name row2 then None
      else if father_husband_name row1 \<noteq> father_husband_name row2 then None
      else
        let matching_fields0 = [''name'', ''father/husband''] in
        if age row1 \<noteq> None \<and> age row2 \<noteq> None \<and> age row1 \<noteq> age row2 then None
        else
          let matching_fields1 =
                (if age row1 \<noteq> None \<and> age row2 \<noteq> None
                 then matching_fields0 @ [''age''] else matching_fields0) in
          if gender row1 \<noteq> None \<and> gender row2 \<noteq> None \<and> gender row1 \<noteq> gender row2
          then None
          else
            let matching_fields2 =
                  (if gender row1 \<noteq> None \<and> gender row2 \<noteq> None
                   then matching_fields1 @ [''gender''] else matching_fields1) in
            Some (FAKE_DETAILS (card_id row1) (card_id row2)
                    (the (name row1)) (the (father_husband_name row1))
                    (age row1) (age row2)
                    (or_na (gender row1)) (or_na (gender row2))
                    (join_str '' + '' matching_fields2)
                    ''100%''
                    ''DEFINITE FRAUD''))"

definition detect_scenario_1_fake_details :: "'f voter_record list \<Rightarrow> 'f fraud_finding list" where
  "detect_scenario_1_fake_details df = scan_pairs fake_details_pair df"

section \<open>Machine numbers\<close>

text \<open>
  The face matcher computes with double-precision numbers. Their type \<open>'f\<close> and the
  operations the source applies to them are parameters of the model: \<open>f_const\<close> is an
  integer literal read as a machine number, \<open>f_add\<close>, \<open>f_sub\<close> and \<open>f_mul\<close> are
  \<^verbatim>\<open>+\<close>, \<^verbatim>\<open>-\<close> and \<^verbatim>\<open>*\<close>, \<open>f_lt\<close> is \<^verbatim>\<open><\<close>, and \<open>f_round\<close> is
  \<^verbatim>\<open>round(x, ndigits)\<close>. Nothing is assumed of them, so what is proved holds of the
  machine's arithmetic, with its rounding, its infinities and its not-a-number value.
\<close>

record 'f float_arith =
  f_const :: "int \<Rightarrow> 'f"
  f_add :: "'f \<Rightarrow> 'f \<Rightarrow> 'f"
  f_sub :: "'f \<Rightarrow> 'f \<Rightarrow> 'f"
  f_mul :: "'f \<Rightarrow> 'f \<Rightarrow> 'f"
  f_lt :: "'f \<Rightarrow> 'f \<Rightarrow> bool"
  f_round :: "'f \<Rightarrow> nat \<Rightarrow> 'f"

section \<open>Scenario 2: fake face\<close>

text \<open>
  \<open>face_distance\<close> is \<^verbatim>\<open>face_recognition.face_distance([a], b)[0]\<close>, a function of
  the library and a parameter here; \<open>fl\<close> is the arithmetic of the machine numbers.
\<close>

definition fake_face_pair ::
  "'f float_arith \<Rightarrow> ('f list \<Rightarrow> 'f list \<Rightarrow> 'f) \<Rightarrow> 'f voter_record \<Rightarrow> 'f voter_record
     \<Rightarrow> 'f fraud_finding option"
where
  "fake_face_pair fl face_distance row1 row2 =
     (let distance = face_distance (the (face_encoding row1)) (the (face_encoding row2));
          similarity_percent = f_mul fl (f_sub fl (f_const fl 1) distance) (f_const fl 100)
      in
        if f_lt fl similarity_percent (f_const fl 80) then None
        else
          let (confidence_score, details_evidence, likelihood) =
                (if name row1 \<noteq> None \<and> name row2 \<noteq> None then
                   (if name row1 \<noteq> name row2 then
                      (f_add fl similarity_percent (f_const fl 5),
                       [''DIFFERENT NAMES: '' @ [CHR 0x27] @ the (name row1) @ [CHR 0x27]
                          @ '' vs '' @ [CHR 0x27] @ the (name row2) @ [CHR 0x27]],
                       siren @ '' CRITICAL FRAUD - SAME FACE, DIFFERENT NAMES'')
                    else
                      (f_sub fl similarity_percent (f_const fl 5),
                       [''SAME NAME: '' @ the (name row1)],
                       ''LIKELY FRAUD - SAME PERSON''))
                 else (similarity_percent, [], ''LIKELY FRAUD - SAME PERSON''))
          in
            Some (FAKE_FACE (card_id row1) (card_id row2)
                    (or_na (name row1)) (or_na (name row2))
                    (or_na (father_husband_name row1)) (or_na (father_husband_name row2))
                    (f_round fl similarity_percent 2)
                    (f_round fl confidence_score 1)
                    (if details_evidence \<noteq> [] then join_str '', '' details_evidence
                     else ''No matching details'')
                    likelihood))"

definition detect_scenario_2_fake_face ::
  "'f float_arith \<Rightarrow> ('f list \<Rightarrow> 'f list \<Rightarrow> 'f) \<Rightarrow> 'f voter_record list
     \<Rightarrow> 'f fraud_finding list"
where
  "detect_scenario_2_fake_face fl face_distance df =
     (let faces_df = filter (\<lambda>r. face_encoding r \<noteq> None) df
      in if length faces_df < 2 then []
         else scan_pairs (fake_face_pair fl face_distance) faces_df)"

section \<open>Scenario 2B: duplicate photos\<close>

text \<open>
  \<open>average_hash\<close> is \<^verbatim>\<open>Image.open\<close> followed by
  \<^verbatim>\<open>imagehash.average_hash(img, hash_size=16)\<close> on a photo path, \<open>None\<close> when either
  raises (the source catches the exception and goes on with the next row);
  \<open>hash_sub\<close> is the subtraction of two image hashes, their Hamming distance. Both
  belong to libraries and are parameters here.
\<close>

definition duplicate_photo_pair ::
  "('h \<Rightarrow> 'h \<Rightarrow> nat) \<Rightarrow> string \<times> 'h \<times> 'f voter_record \<Rightarrow> string \<times> 'h \<times> 'f voter_record
     \<Rightarrow> 'f fraud_finding option"
where
  "duplicate_photo_pair hash_sub entry_1 entry_2 =
     (let (card_1, hash_1, row_1) = entry_1;
          (card_2, hash_2, row_2) = entry_2;
          hash_diff = hash_sub hash_1 hash_2
      in
        if hash_diff \<le> 10 then
          let similarity_percent = (1 - real hash_diff / 64) * 100;
              likelihood =
                (if hash_diff \<le> 5 then siren @ '' EXACT SAME PHOTO - DEFINITE FRAUD''
                 else ''VERY SIMILAR PHOTO - LIKELY FRAUD'')
          in Some (DUPLICATE_PHOTO card_1 card_2
                     (or_na (name row_1)) (or_na (name row_2))
                     (or_na (father_husband_name row_1)) (or_na (father_husband_name row_2))
                     (py_round similarity_percent 2)
                     hash_diff
                     likelihood)
        else None)"

definition photo_hashes ::
  "(string \<Rightarrow> 'h option) \<Rightarrow> 'f voter_record list \<Rightarrow> (string \<times> 'h \<times> 'f voter_record) list"
where
  "photo_hashes average_hash cards_with_faces =
     List.map_filter
       (\<lambda>row. case average_hash (the (face_path row)) of
                 None \<Rightarrow> None
               | Some img_hash \<Rightarrow> Some (card_id row, img_hash, row))
       cards_with_faces"

definition detect_exact_duplicate_photos ::
  "(string \<Rightarrow> 'h option) \<Rightarrow> ('h \<Rightarrow> 'h \<Rightarrow> nat) \<Rightarrow> 'f voter_record list \<Rightarrow> 'f fraud_finding list"
where
  "detect_exact_duplicate_photos average_hash hash_sub df =
     (let cards_with_faces = filter (\<lambda>r. face_path r \<noteq> None) df
      in if length cards_with_faces < 2 then []
         else scan_pairs (duplicate_photo_pair hash_sub)
                (photo_hashes average_hash cards_with_faces))"

section \<open>Scenario 3: address anomalies\<close>

text \<open>
  \<^verbatim>\<open>groupby('house_number').size()\<close> lists each house number once, in sorted order
  (the order of text, the house numbers being text cells), with the number of its rows;
  \<^verbatim>\<open>nunique\<close> counts the distinct present values. The count of a group is printed
  as the integer it is.
\<close>

definition house_counts :: "'f voter_record list \<Rightarrow> (string \<times> nat) list" where
  "house_counts df_with_house =
     map (\<lambda>h. (h, length (filter (\<lambda>r. house_number r = Some h) df_with_house)))
       (sort (remdups (map (\<lambda>r. the (house_number r)) df_with_house)))"

definition nunique :: "'a option list \<Rightarrow> nat" where
  "nunique col = length (remdups (List.map_filter (\<lambda>x. x) col))"

definition address_anomaly ::
  "'f voter_record list \<Rightarrow> string \<times> nat \<Rightarrow> 'f fraud_finding"
where
  "address_anomaly df_with_house house =
     (let (house_num, count) = house;
          voters_at_address = filter (\<lambda>r. house_number r = Some house_num) df_with_house;
          unique_names = nunique (map name voters_at_address);
          unique_fathers = nunique (map father_husband_name voters_at_address);
          risk_level =
            (if count \<ge> 50 then ''CRITICAL''
             else if count \<ge> 40 then ''HIGH''
             else ''MEDIUM'')
      in ADDRESS_ANOMALY house_num count unique_names unique_fathers risk_level
           (join_str '', '' (take 10 (map card_id voters_at_address)) @ ''...'')
           (string_of_nat count @ '' voters at one address - Likely fake voter operation''))"

definition detect_address_anomalies :: "nat \<Rightarrow> 'f voter_record list \<Rightarrow> 'f fraud_finding list" where
  "detect_address_anomalies suspicious_threshold df =
     (let df_with_house = filter (\<lambda>r. house_number r \<noteq> None) df
      in if length df_with_house = 0 then []
         else
           let suspicious_houses =
                 filter (\<lambda>(h, voter_count). voter_count \<ge> suspicious_threshold)
                   (house_counts df_with_house)
           in map (address_anomaly df_with_house) suspicious_houses)"

section \<open>The detection run\<close>

text \<open>
  \<^verbatim>\<open>detect_all_frauds\<close> runs the four detectors and returns the data frame of the
  concatenated lists. A run ends in an error (\<open>Inl\<close>) or in its findings (\<open>Inr\<close>).
  The source raises nothing itself, and with card ids that are text the join of the
  card ids in the address detector does not fail.
\<close>

definition detect_all_frauds ::
  "'f float_arith \<Rightarrow> ('f list \<Rightarrow> 'f list \<Rightarrow> 'f) \<Rightarrow> (string \<Rightarrow> 'h option)
     \<Rightarrow> ('h \<Rightarrow> 'h \<Rightarrow> nat) \<Rightarrow> 'f voter_record list \<Rightarrow> run_error + 'f fraud_finding list"
where
  "detect_all_frauds fl face_distance average_hash hash_sub df =
     (let scenario_1 = detect_scenario_1_fake_details df;
          scenario_2 = detect_scenario_2_fake_face fl face_distance df;
          scenario_2b = detect_exact_duplicate_photos average_hash hash_sub df;
          scenario_3 = detect_address_anomalies 30 df;
          all_frauds = scenario_1 @ scenario_2 @ scenario_2b @ scenario_3
      in Inr all_frauds)"

section \<open>The claims in the words of the specification\<close>

text \<open>A field is present on both records and the two values are equal.\<close>

definition both_present_equal :: "'a option \<Rightarrow> 'a option \<Rightarrow> bool" where
  "both_present_equal a b \<longleftrightarrow> a \<noteq> None \<and> b \<noteq> None \<and> a = b"

text \<open>
  The acceptance condition of the exact-detail matcher: name and father/husband name are
  present on both records and equal, and each of age and gender is equal whenever it
  is present on both.
\<close>

definition exact_detail_criteria :: "'f voter_record \<Rightarrow> 'f voter_record \<Rightarrow> bool" where
  "exact_detail_criteria r1 r2 \<longleftrightarrow>
     both_present_equal (name r1) (name r2) \<and>
     both_present_equal (father_husband_name r1) (father_husband_name r2) \<and>
     (age r1 \<noteq> None \<and> age r2 \<noteq> None \<longrightarrow> age r1 = age r2) \<and>
     (gender r1 \<noteq> None \<and> gender r2 \<noteq> None \<longrightarrow> gender r1 = gender r2)"

text \<open>The fields among name, father/husband, age and gender present on both sides and equal.\<close>

definition fields_present_and_matched :: "'f voter_record \<Rightarrow> 'f voter_record \<Rightarrow> string list" where
  "fields_present_and_matched r1 r2 =
     (if both_present_equal (name r1) (name r2) then [''name''] else []) @
     (if both_present_equal (father_husband_name r1) (father_husband_name r2)
      then [''father/husband''] else []) @
     (if both_present_equal (age r1) (age r2) then [''age''] else []) @
     (if both_present_equal (gender r1) (gender r2) then [''gender''] else [])"

section \<open>Example records\<close>

text \<open>
  A record with the given card id, name, father/husband name, age and gender. The
  example records take their machine numbers from the example arithmetic below.
\<close>

definition voter ::
  "string \<Rightarrow> string option \<Rightarrow> string option \<Rightarrow> int option \<Rightarrow> string option
     \<Rightarrow> real option voter_record"
where
  "voter c n f a g =
     \<lparr>card_id = c, name = n, father_husband_name = f, age = a, gender = g,
      house_number = None, face_encoding = None, face_path = None\<rparr>"

section \<open>Face matcher: the claims' notions\<close>

text \<open>The similarity percentage of a pair, \<open>(1 - distance) * 100\<close> in machine numbers.\<close>

definition similarity_percent ::
  "'f float_arith \<Rightarrow> ('f list \<Rightarrow> 'f list \<Rightarrow> 'f) \<Rightarrow> 'f voter_record \<Rightarrow> 'f voter_record \<Rightarrow> 'f"
where
  "similarity_percent fl face_distance r1 r2 =
     f_mul fl (f_sub fl (f_const fl 1)
                 (face_distance (the (face_encoding r1)) (the (face_encoding r2))))
       (f_const fl 100)"

text \<open>
  The score with the evidence of the names: the similarity plus 5 when both names are
  present and differ, minus 5 when both are present and equal, and the similarity
  itself when a name is absent.
\<close>

definition adjusted_score ::
  "'f float_arith \<Rightarrow> 'f \<Rightarrow> 'f voter_record \<Rightarrow> 'f voter_record \<Rightarrow> 'f"
where
  "adjusted_score fl similarity r1 r2 =
     (if name r1 \<noteq> None \<and> name r2 \<noteq> None
      then (if name r1 \<noteq> name r2 then f_add fl similarity (f_const fl 5)
            else f_sub fl similarity (f_const fl 5))
      else similarity)"

text \<open>
  The classification: the critical one when both names are present and differ, the
  weaker one otherwise.
\<close>

definition face_classification :: "'f voter_record \<Rightarrow> 'f voter_record \<Rightarrow> string" where
  "face_classification r1 r2 =
     (if name r1 \<noteq> None \<and> name r2 \<noteq> None \<and> name r1 \<noteq> name r2
      then siren @ '' CRITICAL FRAUD - SAME FACE, DIFFERENT NAMES''
      else ''LIKELY FRAUD - SAME PERSON'')"

section \<open>Example collaborators and records with a face\<close>

text \<open>
  An arithmetic to evaluate examples with: a number or the not-a-number value \<open>None\<close>,
  exact on numbers (rounding to decimal places apart), with not-a-number passed on by
  every operation and in no comparison. \<open>exact_ge\<close> is its \<^verbatim>\<open>>=\<close>. The examples
  are chosen where the machine's arithmetic gives the same values.
\<close>

definition lift2 :: "(real \<Rightarrow> real \<Rightarrow> real) \<Rightarrow> real option \<Rightarrow> real option \<Rightarrow> real option" where
  "lift2 g a b = (case (a, b) of (Some x, Some y) \<Rightarrow> Some (g x y) | _ \<Rightarrow> None)"

definition exact_lt :: "real option \<Rightarrow> real option \<Rightarrow> bool" where
  "exact_lt a b = (case (a, b) of (Some x, Some y) \<Rightarrow> x < y | _ \<Rightarrow> False)"

definition exact_ge :: "real option \<Rightarrow> real option \<Rightarrow> bool" where
  "exact_ge a b = (case (a, b) of (Some x, Some y) \<Rightarrow> y \<le> x | _ \<Rightarrow> False)"

definition exact_arith :: "real option float_arith" where
  "exact_arith =
     \<lparr>f_const = (\<lambda>i. Some (of_int i)),
      f_add = lift2 (+), f_sub = lift2 (-), f_mul = lift2 (*),
      f_lt = exact_lt,
      f_round = (\<lambda>a ndigits. map_option (\<lambda>x. py_round x ndigits) a)\<rparr>"

text \<open>
  The Euclidean distance of two encodings, which is what the library computes; it is
  not a number when an entry is not.
\<close>

definition euclidean_distance :: "real option list \<Rightarrow> real option list \<Rightarrow> real option" where
  "euclidean_distance a b =
     (if None \<in> set a \<or> None \<in> set b then None
      else Some (sqrt (sum_list (map (\<lambda>(x, y). (the x - the y) ^ 2) (zip a b)))))"

text \<open>A record with a card id, a name and a face encoding.\<close>

definition face_voter ::
  "string \<Rightarrow> string option \<Rightarrow> real option list \<Rightarrow> real option voter_record"
where
  "face_voter c n e = \<lparr>card_id = c, name = n, father_husband_name = None, age = None,
      gender = None, house_number = None, face_encoding = Some e, face_path = None\<rparr>"

section \<open>Photo matcher: the claims' notions\<close>

text \<open>
  The classification by Hamming distance: up to 5 the exact one, above 5 and up to 10 the
  very similar one, above 10 none.
\<close>

definition photo_classification :: "nat \<Rightarrow> string option" where
  "photo_classification distance =
     (if distance \<le> 5 then Some (siren @ '' EXACT SAME PHOTO - DEFINITE FRAUD'')
      else if 5 < distance \<and> distance \<le> 10 then Some ''VERY SIMILAR PHOTO - LIKELY FRAUD''
      else None)"

text \<open>The Hamming distance between the hashes of two entries of the hash list.\<close>

definition hash_distance ::
  "('h \<Rightarrow> 'h \<Rightarrow> nat) \<Rightarrow> string \<times> 'h \<times> 'f voter_record \<Rightarrow> string \<times> 'h \<times> 'f voter_record \<Rightarrow> nat"
where
  "hash_distance hash_sub entry_1 entry_2 = hash_sub (fst (snd entry_1)) (fst (snd entry_2))"

section \<open>Example collaborators and records with a photo\<close>

text \<open>
  Image hashes as bit lists, their subtraction as the number of positions that differ,
  and hashes of 256 bits (\<^verbatim>\<open>hash_size=16\<close> makes the library return 16 rows of 16 bits).
\<close>

definition hamming :: "bool list \<Rightarrow> bool list \<Rightarrow> nat" where
  "hamming a b = length (filter (\<lambda>(x, y). x \<noteq> y) (zip a b))"

definition bits :: "nat \<Rightarrow> bool list" where
  "bits k = replicate k True @ replicate (256 - k) False"

definition example_hash :: "string \<Rightarrow> bool list option" where
  "example_hash path =
     map_of [(''p0.jpg'', bits 0), (''p5.jpg'', bits 5), (''p6.jpg'', bits 6),
             (''p8.jpg'', bits 8), (''p11.jpg'', bits 11)] path"

text \<open>A record with a card id and a photo path.\<close>

definition photo_voter :: "string \<Rightarrow> string \<Rightarrow> real option voter_record" where
  "photo_voter c p = \<lparr>card_id = c, name = None, father_husband_name = None, age = None,
      gender = None, house_number = None, face_encoding = None, face_path = Some p\<rparr>"

section \<open>Pairwise findings: the claims' notions\<close>

text \<open>The card ids of the scanned pairs, the earlier record first, in scan order.\<close>

definition scan_cards :: "'f voter_record list \<Rightarrow> (string \<times> string) list" where
  "scan_cards df = map (\<lambda>(r1, r2). (card_id r1, card_id r2)) (pairs df)"

text \<open>
  No two findings carry the same two cards, in the same or in the opposite order, and
  in every finding the first card belongs to a record that stands before the record of
  the second card.
\<close>

definition pairwise_once :: "'f voter_record list \<Rightarrow> 'f fraud_finding list \<Rightarrow> bool" where
  "pairwise_once df fs \<longleftrightarrow>
     distinct (map (\<lambda>f. (card_1 f, card_2 f)) fs) \<and>
     (\<forall>f\<in>set fs. \<forall>g\<in>set fs. \<not> (card_1 f = card_2 g \<and> card_2 f = card_1 g)) \<and>
     (\<forall>f\<in>set fs. \<exists>j\<in>{..<length df}. \<exists>i\<in>{..<j}.
         card_1 f = card_id (df ! i) \<and> card_2 f = card_id (df ! j))"

section \<open>Address anomalies: the claims' notions\<close>

text \<open>The size of the group of a house number: the records that carry exactly it.\<close>

definition voters_at :: "'f voter_record list \<Rightarrow> string \<Rightarrow> nat" where
  "voters_at df h = length (filter (\<lambda>r. house_number r = Some h) df)"

text \<open>
  The risk level of a group by its size at the threshold 30: critical from 50, high from
  40 to 49, medium from 30 to 39, and no finding below 30.
\<close>

definition risk_tier :: "nat \<Rightarrow> string option" where
  "risk_tier group_size =
     (if 50 \<le> group_size then Some ''CRITICAL''
      else if 40 \<le> group_size \<and> group_size < 50 then Some ''HIGH''
      else if 30 \<le> group_size \<and> group_size < 40 then Some ''MEDIUM''
      else None)"


section \<open>Example record sets\<close>

text \<open>A record with a card id and a house number.\<close>

definition house_voter :: "string \<Rightarrow> string \<Rightarrow> real option voter_record" where
  "house_voter c h = \<lparr>card_id = c, name = None, father_husband_name = None, age = None,
      gender = None, house_number = Some h, face_encoding = None, face_path = None\<rparr>"

text \<open>Thirty voters at house 12, one at house 7, one without a house number.\<close>

definition example_street :: "real option voter_record list" where
  "example_street =
     map (\<lambda>i. house_voter (''V'' @ string_of_nat i) ''12'') [0..<30]
     @ [house_voter ''W1'' ''7'', voter ''W2'' (Some ''RAM'') None None None]"

text \<open>Two records equal in name and father/husband name, each with a face encoding.\<close>

definition example_twins :: "real option voter_record list" where
  "example_twins =
     [(voter ''A1'' (Some ''RAM'') (Some ''SHYAM'') (Some 40) None)
        \<lparr>face_encoding := Some [Some 0]\<rparr>,
      (voter ''A2'' (Some ''RAM'') (Some ''SHYAM'') None (Some ''M''))
        \<lparr>face_encoding := Some [Some 0.1]\<rparr>]"


section \<open>Properties of the pairwise scan\<close>

lemma pairs_Nil: "pairs [] = []"
  by (simp add: pairs_def)

lemma pairs_Cons: "pairs (x # xs) = map (Pair x) xs @ pairs xs"
proof -
  let ?F = "\<lambda>i. map (\<lambda>j. ((x # xs) ! i, (x # xs) ! j)) [Suc i..<Suc (length xs)]"
  have up: "[0..<Suc (length xs)] = 0 # map Suc [0..<length xs]"
    by (simp add: upt_conv_Cons map_Suc_upt del: upt_Suc)
  have inner: "?F 0 = map (Pair x) xs"
  proof -
    have "?F 0 = map (\<lambda>j. (x, (x # xs) ! j)) (map Suc [0..<length xs])"
      by (simp only: map_Suc_upt nth_Cons_0)
    also have "\<dots> = map (Pair x) (map ((!) xs) [0..<length xs])"
      by simp
    also have "\<dots> = map (Pair x) xs"
      by (simp only: map_nth)
    finally show ?thesis .
  qed
  have step: "?F (Suc i) = map (\<lambda>j. (xs ! i, xs ! j)) [Suc i..<length xs]" for i
  proof -
    have "?F (Suc i) = map (\<lambda>j. ((x # xs) ! Suc i, (x # xs) ! j)) (map Suc [Suc i..<length xs])"
      by (simp only: map_Suc_upt)
    then show ?thesis by simp
  qed
  have rest: "concat (map ?F (map Suc [0..<length xs])) = pairs xs"
    by (simp only: map_map comp_def step pairs_def)
  have "pairs (x # xs) = concat (map ?F (0 # map Suc [0..<length xs]))"
    by (simp only: pairs_def [of "x # xs"] length_Cons up)
  also have "\<dots> = ?F 0 @ concat (map ?F (map Suc [0..<length xs]))"
    by (simp only: list.map concat.simps)
  finally show ?thesis
    by (simp only: inner rest)
qed

lemma set_pairs:
  "set (pairs xs) = {(xs ! i, xs ! j) | i j. i < j \<and> j < length xs}"
proof (induction xs)
  case Nil
  then show ?case by (simp add: pairs_Nil)
next
  case (Cons x xs)
  show ?case
  proof (rule set_eqI)
    fix p
    show "p \<in> set (pairs (x # xs)) \<longleftrightarrow>
          p \<in> {((x # xs) ! i, (x # xs) ! j) | i j. i < j \<and> j < length (x # xs)}"
    proof
      assume "p \<in> set (pairs (x # xs))"
      then consider (hd) y where "y \<in> set xs" "p = (x, y)" | (tl) "p \<in> set (pairs xs)"
        by (auto simp: pairs_Cons)
      then show "p \<in> {((x # xs) ! i, (x # xs) ! j) | i j. i < j \<and> j < length (x # xs)}"
      proof cases
        case hd
        then obtain n where "n < length xs" "xs ! n = y"
          by (auto simp: in_set_conv_nth)
        then have "p = ((x # xs) ! 0, (x # xs) ! Suc n) \<and> 0 < Suc n \<and> Suc n < length (x # xs)"
          using hd by simp
        then show ?thesis by blast
      next
        case tl
        then obtain i j where "i < j" "j < length xs" "p = (xs ! i, xs ! j)"
          using Cons.IH by auto
        then have "p = ((x # xs) ! Suc i, (x # xs) ! Suc j) \<and> Suc i < Suc j
                     \<and> Suc j < length (x # xs)"
          by simp
        then show ?thesis by blast
      qed
    next
      assume "p \<in> {((x # xs) ! i, (x # xs) ! j) | i j. i < j \<and> j < length (x # xs)}"
      then obtain i j where ij: "i < j" "j < length (x # xs)"
        "p = ((x # xs) ! i, (x # xs) ! j)"
        by auto
      then obtain j' where j': "j = Suc j'" by (cases j) auto
      show "p \<in> set (pairs (x # xs))"
      proof (cases i)
        case 0
        then show ?thesis using ij j' by (auto simp: pairs_Cons)
      next
        case (Suc i')
        then have "p = (xs ! i', xs ! j') \<and> i' < j' \<and> j' < length xs"
          using ij j' by simp
        then have "p \<in> set (pairs xs)"
          using Cons.IH by blast
        then show ?thesis by (simp add: pairs_Cons)
      qed
    qed
  qed
qed

lemma pairs_filter:
  "pairs (filter P xs) = filter (\<lambda>(a, b). P a \<and> P b) (pairs xs)"
  by (induction xs) (auto simp: pairs_Nil pairs_Cons filter_map comp_def)

lemma in_pairs_set: "(a, b) \<in> set (pairs xs) \<Longrightarrow> a \<in> set xs \<and> b \<in> set xs"
  by (auto simp: set_pairs)

lemma distinct_pairs_keys:
  "distinct (map k xs) \<Longrightarrow> distinct (map (\<lambda>(a, b). (k a, k b)) (pairs xs))"
proof (induction xs)
  case Nil
  then show ?case by (simp add: pairs_Nil)
next
  case (Cons x xs)
  have fst_new: "distinct (map (\<lambda>b. (k x, k b)) xs)"
    using Cons.prems by (simp add: distinct_map inj_on_def)
  have disj: "k a \<noteq> k x" if "(a, b) \<in> set (pairs xs)" for a b
  proof -
    have "a \<in> set xs" using in_pairs_set [OF that] by simp
    then have "k a \<in> k ` set xs" by simp
    with Cons.prems show ?thesis by auto
  qed
  let ?key = "\<lambda>(a, b). (k a, k b)"
  have d1: "distinct (map ?key (map (Pair x) xs))"
    using fst_new by (simp add: comp_def)
  have d2: "distinct (map ?key (pairs xs))"
    using Cons by simp
  have d3: "set (map ?key (map (Pair x) xs)) \<inter> set (map ?key (pairs xs)) = {}"
  proof (rule ccontr)
    assume "set (map ?key (map (Pair x) xs)) \<inter> set (map ?key (pairs xs)) \<noteq> {}"
    then obtain y a b where "(a, b) \<in> set (pairs xs)" "(k x, k y) = (k a, k b)"
      by auto
    then show False using disj by auto
  qed
  show ?case
    by (simp only: pairs_Cons map_append distinct_append d1 d2 d3 simp_thms)
qed

lemma scan_pairs_two:
  "scan_pairs body [x, y] = (case body x y of None \<Rightarrow> [] | Some f \<Rightarrow> [f])"
  by (simp add: scan_pairs_def pairs_Cons pairs_Nil List.map_filter_simps split: option.splits)

lemma scan_pairs_map_filter:
  assumes "\<And>x y f. body x y = Some f \<Longrightarrow> view f = spec x y"
    and "\<And>x y. body x y \<noteq> None \<longleftrightarrow> accept x y"
  shows "map view (scan_pairs body xs)
       = map (\<lambda>(x, y). spec x y) (filter (\<lambda>(x, y). accept x y) (pairs xs))"
proof -
  have "map view (List.map_filter (\<lambda>(x, y). body x y) ps)
      = map (\<lambda>(x, y). spec x y) (filter (\<lambda>(x, y). accept x y) ps)" for ps
  proof (induction ps)
    case Nil
    then show ?case by (simp add: List.map_filter_simps)
  next
    case (Cons p ps)
    obtain x y where p: "p = (x, y)" by (cases p)
    show ?case
    proof (cases "body x y")
      case None
      then have "\<not> accept x y" using assms(2) [of x y] by simp
      then show ?thesis using None Cons p by (simp add: List.map_filter_simps)
    next
      case (Some f)
      then have "accept x y" using assms(2) [of x y] by simp
      then show ?thesis
        using Some Cons p assms(1) [OF Some] by (simp add: List.map_filter_simps)
    qed
  qed
  then show ?thesis by (simp add: scan_pairs_def)
qed

section \<open>Exact-detail matcher\<close>

lemma fake_details_pair_iff:
  "fake_details_pair r1 r2 \<noteq> None \<longleftrightarrow> exact_detail_criteria r1 r2"
  by (auto simp: fake_details_pair_def exact_detail_criteria_def both_present_equal_def Let_def)

lemma fake_details_pair_fields:
  assumes "fake_details_pair r1 r2 = Some f"
  shows "card_1 f = card_id r1 \<and> card_2 f = card_id r2 \<and>
         matching_fields f = join_str '' + '' (fields_present_and_matched r1 r2) \<and>
         confidence f = ''100%'' \<and> is_FAKE_DETAILS f"
proof -
  have c: "exact_detail_criteria r1 r2"
    using assms fake_details_pair_iff [of r1 r2] by simp
  then have n: "name r1 \<noteq> None" "name r2 \<noteq> None" "name r1 = name r2"
    and p: "father_husband_name r1 \<noteq> None" "father_husband_name r2 \<noteq> None"
      "father_husband_name r1 = father_husband_name r2"
    and a: "age r1 \<noteq> None \<and> age r2 \<noteq> None \<longrightarrow> age r1 = age r2"
    and g: "gender r1 \<noteq> None \<and> gender r2 \<noteq> None \<longrightarrow> gender r1 = gender r2"
    by (simp_all add: exact_detail_criteria_def both_present_equal_def)
  obtain nm where nm: "name r1 = Some nm" "name r2 = Some nm"
    using n by auto
  obtain fa where fa: "father_husband_name r1 = Some fa" "father_husband_name r2 = Some fa"
    using p by auto
  show ?thesis
    using assms nm fa a g
    by (cases "age r1"; cases "age r2"; cases "gender r1"; cases "gender r2";
        simp add: fake_details_pair_def Let_def fields_present_and_matched_def
          both_present_equal_def; clarsimp)
qed

text \<open>
  C1. The exact-detail matcher emits one FAKE_DETAILS finding for exactly those scanned
  pairs that meet \<open>exact_detail_criteria\<close>, in scan order; the finding carries the two
  card ids, as matching fields the joined list of the fields present on both sides and
  equal, and the confidence 100%. A pair equal in name and father/husband name whose ages
  are both present and differ yields no finding; with the age of one side absent the
  pair is reported (the genders agreeing where both are present).
\<close>

theorem detect_scenario_1_fake_details_criteria:
  "map (\<lambda>f. (card_1 f, card_2 f, matching_fields f, confidence f))
       (detect_scenario_1_fake_details df)
   = map (\<lambda>(r1, r2). (card_id r1, card_id r2,
                       join_str '' + '' (fields_present_and_matched r1 r2), ''100%''))
       (filter (\<lambda>(r1, r2). exact_detail_criteria r1 r2) (pairs df))
   \<and> (both_present_equal (name r1) (name r2)
        \<and> both_present_equal (father_husband_name r1) (father_husband_name r2)
        \<and> age r1 = Some a \<and> age r2 = Some b \<and> a \<noteq> b
      \<longrightarrow> detect_scenario_1_fake_details [r1, r2] = [])
   \<and> (both_present_equal (name r1) (name r2)
        \<and> both_present_equal (father_husband_name r1) (father_husband_name r2)
        \<and> (gender r1 \<noteq> None \<and> gender r2 \<noteq> None \<longrightarrow> gender r1 = gender r2)
      \<longrightarrow> length (detect_scenario_1_fake_details [r1, r2\<lparr>age := None\<rparr>]) = 1)"
proof (intro conjI impI)
  show "map (\<lambda>f. (card_1 f, card_2 f, matching_fields f, confidence f))
       (detect_scenario_1_fake_details df)
   = map (\<lambda>(r1, r2). (card_id r1, card_id r2,
                       join_str '' + '' (fields_present_and_matched r1 r2), ''100%''))
       (filter (\<lambda>(r1, r2). exact_detail_criteria r1 r2) (pairs df))"
    unfolding detect_scenario_1_fake_details_def
  proof (rule scan_pairs_map_filter)
    fix x y f
    assume "fake_details_pair x y = Some f"
    from fake_details_pair_fields [OF this]
    show "(card_1 f, card_2 f, matching_fields f, confidence f)
        = (card_id x, card_id y, join_str '' + '' (fields_present_and_matched x y), ''100%'')"
      by simp
  next
    fix x y
    show "fake_details_pair x y \<noteq> None \<longleftrightarrow> exact_detail_criteria x y"
      by (rule fake_details_pair_iff)
  qed
next
  assume "both_present_equal (name r1) (name r2)
        \<and> both_present_equal (father_husband_name r1) (father_husband_name r2)
        \<and> age r1 = Some a \<and> age r2 = Some b \<and> a \<noteq> b"
  then have "\<not> exact_detail_criteria r1 r2"
    by (simp add: exact_detail_criteria_def)
  then have "fake_details_pair r1 r2 = None"
    using fake_details_pair_iff [of r1 r2] by simp
  then show "detect_scenario_1_fake_details [r1, r2] = []"
    by (simp add: detect_scenario_1_fake_details_def scan_pairs_two)
next
  assume "both_present_equal (name r1) (name r2)
        \<and> both_present_equal (father_husband_name r1) (father_husband_name r2)
        \<and> (gender r1 \<noteq> None \<and> gender r2 \<noteq> None \<longrightarrow> gender r1 = gender r2)"
  then have "exact_detail_criteria r1 (r2\<lparr>age := None\<rparr>)"
    by (simp add: exact_detail_criteria_def)
  then obtain f where "fake_details_pair r1 (r2\<lparr>age := None\<rparr>) = Some f"
    using fake_details_pair_iff [of r1 "r2\<lparr>age := None\<rparr>"] by auto
  then show "length (detect_scenario_1_fake_details [r1, r2\<lparr>age := None\<rparr>]) = 1"
    by (simp add: detect_scenario_1_fake_details_def scan_pairs_two)
qed

theorem detect_scenario_1_fake_details_criteria_witness:
  "detect_scenario_1_fake_details
     [voter ''A1'' (Some ''RAM'') (Some ''SHYAM'') (Some 40) (Some ''M''),
      voter ''A2'' (Some ''RAM'') (Some ''SHYAM'') (Some 41) (Some ''M'')] = []
   \<and> length (detect_scenario_1_fake_details
     [voter ''A1'' (Some ''RAM'') (Some ''SHYAM'') (Some 40) (Some ''M''),
      (voter ''A2'' (Some ''RAM'') (Some ''SHYAM'') (Some 41) (Some ''M''))\<lparr>age := None\<rparr>]) = 1"
  using detect_scenario_1_fake_details_criteria
    [of "[] :: real option voter_record list" "voter ''A1'' (Some ''RAM'') (Some ''SHYAM'') (Some 40) (Some ''M'')"
        "voter ''A2'' (Some ''RAM'') (Some ''SHYAM'') (Some 41) (Some ''M'')" 40 41]
  by (simp add: voter_def both_present_equal_def)

section \<open>Face-similarity matcher\<close>

lemma pairs_short: "length xs < 2 \<Longrightarrow> pairs xs = []"
  by (cases xs; cases "tl xs") (auto simp: pairs_Cons pairs_Nil)

lemma fake_face_pair_iff:
  "fake_face_pair fl face_distance r1 r2 \<noteq> None
   \<longleftrightarrow> \<not> f_lt fl (similarity_percent fl face_distance r1 r2) (f_const fl 80)"
  by (simp add: fake_face_pair_def similarity_percent_def Let_def split: prod.splits)

lemma fake_face_pair_fields:
  assumes "fake_face_pair fl face_distance r1 r2 = Some f"
  shows "card_1 f = card_id r1 \<and> card_2 f = card_id r2 \<and>
         face_similarity_percent f
           = f_round fl (similarity_percent fl face_distance r1 r2) 2 \<and>
         confidence_score f
           = f_round fl (adjusted_score fl (similarity_percent fl face_distance r1 r2) r1 r2) 1 \<and>
         likelihood f = face_classification r1 r2 \<and> is_FAKE_FACE f"
proof -
  have acc: "\<not> f_lt fl (similarity_percent fl face_distance r1 r2) (f_const fl 80)"
    using assms fake_face_pair_iff [of fl face_distance r1 r2] by simp
  show ?thesis
  proof (cases "name r1 \<noteq> None \<and> name r2 \<noteq> None")
    case False
    then show ?thesis
      using assms acc
      by (auto simp: fake_face_pair_def similarity_percent_def Let_def adjusted_score_def
            face_classification_def)
  next
    case present: True
    show ?thesis
    proof (cases "name r1 = name r2")
      case True
      then show ?thesis
        using assms acc present
        by (auto simp: fake_face_pair_def similarity_percent_def Let_def adjusted_score_def
              face_classification_def)
    next
      case False
      then show ?thesis
        using assms acc present
        by (auto simp: fake_face_pair_def similarity_percent_def Let_def adjusted_score_def
              face_classification_def)
    qed
  qed
qed

lemma detect_scenario_2_scan:
  "detect_scenario_2_fake_face fl face_distance df
   = scan_pairs (fake_face_pair fl face_distance) (filter (\<lambda>r. face_encoding r \<noteq> None) df)"
  by (simp add: detect_scenario_2_fake_face_def Let_def scan_pairs_def pairs_short
        List.map_filter_simps)

lemma exact_arith_eval:
  "f_const exact_arith i = Some (of_int i)"
  "f_add exact_arith (Some x) (Some y) = Some (x + y)"
  "f_sub exact_arith (Some x) (Some y) = Some (x - y)"
  "f_mul exact_arith (Some x) (Some y) = Some (x * y)"
  "f_lt exact_arith (Some x) (Some y) \<longleftrightarrow> x < y"
  "f_round exact_arith (Some x) n = Some (py_round x n)"
  "f_sub exact_arith a None = None"
  "f_mul exact_arith None b = None"
  "f_round exact_arith None n = None"
  "\<not> f_lt exact_arith None b"
  by (simp_all add: exact_arith_def lift2_def exact_lt_def split: option.splits)

lemma euclidean_distance_single:
  "euclidean_distance [Some x] [Some y] = Some \<bar>x - y\<bar>"
  "euclidean_distance [None] b = None"
  by (simp_all add: euclidean_distance_def)

lemma face_voter_eval:
  "similarity_percent exact_arith euclidean_distance
     (face_voter c n [Some x]) (face_voter c' n' [Some y])
   = Some ((1 - \<bar>x - y\<bar>) * 100)"
  by (simp add: similarity_percent_def euclidean_distance_single face_voter_def
        exact_arith_eval)

lemma detect_scenario_2_two:
  "detect_scenario_2_fake_face fl fd [face_voter c n e, face_voter c' n' e']
   = (case fake_face_pair fl fd (face_voter c n e) (face_voter c' n' e') of
        None \<Rightarrow> [] | Some f \<Rightarrow> [f])"
  by (simp add: detect_scenario_2_scan scan_pairs_two face_voter_def)

lemma fake_face_pair_eval:
  "fake_face_pair exact_arith euclidean_distance
     (face_voter c (Some n) [Some x]) (face_voter c' (Some n') [Some y]) =
     (if (1 - \<bar>x - y\<bar>) * 100 < 80 then None
      else Some (FAKE_FACE c c' n n' ''N/A'' ''N/A''
              (Some (py_round ((1 - \<bar>x - y\<bar>) * 100) 2))
              (Some (py_round ((1 - \<bar>x - y\<bar>) * 100 + (if n \<noteq> n' then 5 else - 5)) 1))
              (if n \<noteq> n'
               then ''DIFFERENT NAMES: '' @ [CHR 0x27] @ n @ [CHR 0x27] @ '' vs ''
                      @ [CHR 0x27] @ n' @ [CHR 0x27]
               else ''SAME NAME: '' @ n)
              (if n \<noteq> n' then siren @ '' CRITICAL FRAUD - SAME FACE, DIFFERENT NAMES''
               else ''LIKELY FRAUD - SAME PERSON'')))"
  by (simp add: fake_face_pair_def euclidean_distance_single face_voter_def Let_def or_na_def
        exact_arith_eval)

text \<open>
  C4. The face matcher skips a pair only when its similarity percentage is below 80, so
  a pair whose similarity is not a number is reported, although it is not at least 80.
  Two records, one with a not-a-number entry in its encoding, are reported as a pair
  with a similarity that is not a number.
\<close>

theorem fake_face_reports_nan_similarity:
  "similarity_percent exact_arith euclidean_distance
     (face_voter ''F1'' None [None]) (face_voter ''F2'' None [Some 0]) = None
   \<and> \<not> exact_ge None (f_const exact_arith 80)
   \<and> map (\<lambda>f. (card_1 f, card_2 f, face_similarity_percent f))
       (detect_scenario_2_fake_face exact_arith euclidean_distance
          [face_voter ''F1'' None [None], face_voter ''F2'' None [Some 0]])
     = [(''F1'', ''F2'', None)]"
proof -
  have s: "similarity_percent exact_arith euclidean_distance
     (face_voter ''F1'' None [None]) (face_voter ''F2'' None [Some 0]) = None"
    by (simp add: similarity_percent_def euclidean_distance_single face_voter_def
          exact_arith_eval)
  have g: "\<not> exact_ge None (f_const exact_arith 80)"
    by (simp add: exact_ge_def)
  have "fake_face_pair exact_arith euclidean_distance
     (face_voter ''F1'' None [None]) (face_voter ''F2'' None [Some 0])
     = Some (FAKE_FACE ''F1'' ''F2'' ''N/A'' ''N/A'' ''N/A'' ''N/A'' None None
               ''No matching details'' ''LIKELY FRAUD - SAME PERSON'')"
    by (simp add: fake_face_pair_def euclidean_distance_single face_voter_def Let_def or_na_def
          exact_arith_eval)
  then show ?thesis
    using s g by (simp add: detect_scenario_2_two)
qed

text \<open>
  C3, as amended. The reported confidence score of an accepted pair is the machine's
  \<^verbatim>\<open>round(score, 1)\<close> of the adjusted score: the similarity percentage plus 5 when
  both names are present and differ, minus 5 when both are present and equal, and the
  similarity itself when a name is absent; the classification is the critical one in the
  first case and the weaker one otherwise. A similarity of 85 gives 90.0 and the
  critical classification for differing names, 80.0 and the weaker one for equal names
  (85 + 5 = 90 and 85 - 5 = 80 are exact in the machine's arithmetic, and rounding
  leaves 90.0 and 80.0 as they are).
\<close>

theorem fake_face_confidence_rounded:
  "map (\<lambda>f. (card_1 f, card_2 f, confidence_score f, likelihood f))
       (detect_scenario_2_fake_face fl face_distance df)
   = map (\<lambda>(r1, r2). (card_id r1, card_id r2,
            f_round fl (adjusted_score fl (similarity_percent fl face_distance r1 r2) r1 r2) 1,
            face_classification r1 r2))
       (filter (\<lambda>(r1, r2).
                  \<not> f_lt fl (similarity_percent fl face_distance r1 r2) (f_const fl 80))
          (pairs (filter (\<lambda>r. face_encoding r \<noteq> None) df)))
   \<and> (fake_face_pair fl face_distance r1 r2 = Some f
        \<and> name r1 \<noteq> None \<and> name r2 \<noteq> None \<and> name r1 \<noteq> name r2
      \<longrightarrow> confidence_score f
            = f_round fl (f_add fl (similarity_percent fl face_distance r1 r2) (f_const fl 5)) 1
          \<and> likelihood f = siren @ '' CRITICAL FRAUD - SAME FACE, DIFFERENT NAMES'')
   \<and> (fake_face_pair fl face_distance r1 r2 = Some f
        \<and> name r1 \<noteq> None \<and> name r2 \<noteq> None \<and> name r1 = name r2
      \<longrightarrow> confidence_score f
            = f_round fl (f_sub fl (similarity_percent fl face_distance r1 r2) (f_const fl 5)) 1
          \<and> likelihood f = ''LIKELY FRAUD - SAME PERSON'')
   \<and> (fake_face_pair fl face_distance r1 r2 = Some f
        \<and> (name r1 = None \<or> name r2 = None)
      \<longrightarrow> confidence_score f = f_round fl (similarity_percent fl face_distance r1 r2) 1
          \<and> likelihood f = ''LIKELY FRAUD - SAME PERSON'')
   \<and> (fake_face_pair fl face_distance r1 r2 = Some f
        \<and> similarity_percent fl face_distance r1 r2 = f_const fl 85
        \<and> name r1 \<noteq> None \<and> name r2 \<noteq> None \<and> name r1 \<noteq> name r2
        \<and> f_add fl (f_const fl 85) (f_const fl 5) = f_const fl 90
        \<and> f_round fl (f_const fl 90) 1 = f_const fl 90
      \<longrightarrow> confidence_score f = f_const fl 90
          \<and> likelihood f = siren @ '' CRITICAL FRAUD - SAME FACE, DIFFERENT NAMES'')
   \<and> (fake_face_pair fl face_distance r1 r2 = Some f
        \<and> similarity_percent fl face_distance r1 r2 = f_const fl 85
        \<and> name r1 \<noteq> None \<and> name r2 \<noteq> None \<and> name r1 = name r2
        \<and> f_sub fl (f_const fl 85) (f_const fl 5) = f_const fl 80
        \<and> f_round fl (f_const fl 80) 1 = f_const fl 80
      \<longrightarrow> confidence_score f = f_const fl 80
          \<and> likelihood f = ''LIKELY FRAUD - SAME PERSON'')"
proof -
  have whole: "map (\<lambda>f. (card_1 f, card_2 f, confidence_score f, likelihood f))
       (detect_scenario_2_fake_face fl face_distance df)
   = map (\<lambda>(r1, r2). (card_id r1, card_id r2,
            f_round fl (adjusted_score fl (similarity_percent fl face_distance r1 r2) r1 r2) 1,
            face_classification r1 r2))
       (filter (\<lambda>(r1, r2).
                  \<not> f_lt fl (similarity_percent fl face_distance r1 r2) (f_const fl 80))
          (pairs (filter (\<lambda>r. face_encoding r \<noteq> None) df)))"
    unfolding detect_scenario_2_scan
  proof (rule scan_pairs_map_filter)
    fix x y f
    assume "fake_face_pair fl face_distance x y = Some f"
    from fake_face_pair_fields [OF this]
    show "(card_1 f, card_2 f, confidence_score f, likelihood f)
        = (card_id x, card_id y,
           f_round fl (adjusted_score fl (similarity_percent fl face_distance x y) x y) 1,
           face_classification x y)"
      by simp
  next
    fix x y
    show "fake_face_pair fl face_distance x y \<noteq> None
          \<longleftrightarrow> \<not> f_lt fl (similarity_percent fl face_distance x y) (f_const fl 80)"
      by (rule fake_face_pair_iff)
  qed
  have pair: "confidence_score f
        = f_round fl (adjusted_score fl (similarity_percent fl face_distance r1 r2) r1 r2) 1
      \<and> likelihood f = face_classification r1 r2"
    if "fake_face_pair fl face_distance r1 r2 = Some f"
    using fake_face_pair_fields [OF that] by simp
  have differ: "fake_face_pair fl face_distance r1 r2 = Some f
        \<and> name r1 \<noteq> None \<and> name r2 \<noteq> None \<and> name r1 \<noteq> name r2
      \<longrightarrow> confidence_score f
            = f_round fl (f_add fl (similarity_percent fl face_distance r1 r2) (f_const fl 5)) 1
          \<and> likelihood f = siren @ '' CRITICAL FRAUD - SAME FACE, DIFFERENT NAMES''"
    using pair by (simp add: adjusted_score_def face_classification_def)
  have same: "fake_face_pair fl face_distance r1 r2 = Some f
        \<and> name r1 \<noteq> None \<and> name r2 \<noteq> None \<and> name r1 = name r2
      \<longrightarrow> confidence_score f
            = f_round fl (f_sub fl (similarity_percent fl face_distance r1 r2) (f_const fl 5)) 1
          \<and> likelihood f = ''LIKELY FRAUD - SAME PERSON''"
    using pair by (simp add: adjusted_score_def face_classification_def)
  have absent: "fake_face_pair fl face_distance r1 r2 = Some f
        \<and> (name r1 = None \<or> name r2 = None)
      \<longrightarrow> confidence_score f = f_round fl (similarity_percent fl face_distance r1 r2) 1
          \<and> likelihood f = ''LIKELY FRAUD - SAME PERSON''"
    using pair by (auto simp: adjusted_score_def face_classification_def)
  have ex90: "fake_face_pair fl face_distance r1 r2 = Some f
        \<and> similarity_percent fl face_distance r1 r2 = f_const fl 85
        \<and> name r1 \<noteq> None \<and> name r2 \<noteq> None \<and> name r1 \<noteq> name r2
        \<and> f_add fl (f_const fl 85) (f_const fl 5) = f_const fl 90
        \<and> f_round fl (f_const fl 90) 1 = f_const fl 90
      \<longrightarrow> confidence_score f = f_const fl 90
          \<and> likelihood f = siren @ '' CRITICAL FRAUD - SAME FACE, DIFFERENT NAMES''"
    using differ by auto
  have ex80: "fake_face_pair fl face_distance r1 r2 = Some f
        \<and> similarity_percent fl face_distance r1 r2 = f_const fl 85
        \<and> name r1 \<noteq> None \<and> name r2 \<noteq> None \<and> name r1 = name r2
        \<and> f_sub fl (f_const fl 85) (f_const fl 5) = f_const fl 80
        \<and> f_round fl (f_const fl 80) 1 = f_const fl 80
      \<longrightarrow> confidence_score f = f_const fl 80
          \<and> likelihood f = ''LIKELY FRAUD - SAME PERSON''"
    using same by auto
  show ?thesis
    using whole differ same absent ex90 ex80 by blast
qed

theorem fake_face_confidence_rounded_witness:
  "map confidence_score (detect_scenario_2_fake_face exact_arith euclidean_distance
      [face_voter ''F1'' (Some ''RAM'') [Some 0], face_voter ''F2'' (Some ''MOHAN'') [Some 0.15]])
     = [Some 90]
   \<and> map confidence_score (detect_scenario_2_fake_face exact_arith euclidean_distance
      [face_voter ''F1'' (Some ''RAM'') [Some 0], face_voter ''F4'' (Some ''RAM'') [Some 0.15]])
     = [Some 80]"
proof -
  let ?a = "face_voter ''F1'' (Some ''RAM'') [Some 0]"
  let ?b = "face_voter ''F2'' (Some ''MOHAN'') [Some 0.15]"
  let ?c = "face_voter ''F4'' (Some ''RAM'') [Some 0.15]"
  obtain f where f: "fake_face_pair exact_arith euclidean_distance ?a ?b = Some f"
    by (simp add: fake_face_pair_eval)
  obtain g where g: "fake_face_pair exact_arith euclidean_distance ?a ?c = Some g"
    by (simp add: fake_face_pair_eval)
  have n: "name ?a = Some ''RAM''" "name ?b = Some ''MOHAN''" "name ?c = Some ''RAM''"
    by (simp_all add: face_voter_def)
  have s: "similarity_percent exact_arith euclidean_distance ?a ?b = f_const exact_arith 85"
    "similarity_percent exact_arith euclidean_distance ?a ?c = f_const exact_arith 85"
    by (simp_all add: face_voter_eval exact_arith_eval)
  have ar: "f_add exact_arith (f_const exact_arith 85) (f_const exact_arith 5)
              = f_const exact_arith 90"
    "f_round exact_arith (f_const exact_arith 90) 1 = f_const exact_arith 90"
    "f_sub exact_arith (f_const exact_arith 85) (f_const exact_arith 5)
              = f_const exact_arith 80"
    "f_round exact_arith (f_const exact_arith 80) 1 = f_const exact_arith 80"
    by (simp_all add: exact_arith_eval py_round_def round_half_even_def)
  have "confidence_score f = f_const exact_arith 90"
    using fake_face_confidence_rounded [of exact_arith euclidean_distance "[] :: real option voter_record list" ?a ?b f] f n s ar
    by simp
  moreover have "confidence_score g = f_const exact_arith 80"
    using fake_face_confidence_rounded [of exact_arith euclidean_distance "[] :: real option voter_record list" ?a ?c g] g n s ar
    by simp
  ultimately show ?thesis
    using f g by (simp add: detect_scenario_2_two exact_arith_eval)
qed

text \<open>
  C3 as stated fails: at similarity 85.123 with differing names the reported score is
  90.1, not 90.123.
\<close>

theorem fake_face_confidence_unrounded_counterexample:
  "map confidence_score (detect_scenario_2_fake_face exact_arith euclidean_distance
      [face_voter ''F1'' (Some ''RAM'') [Some 0],
       face_voter ''F2'' (Some ''MOHAN'') [Some 0.14877]])
     = [Some 90.1]
   \<and> f_add exact_arith
       (similarity_percent exact_arith euclidean_distance
          (face_voter ''F1'' (Some ''RAM'') [Some 0])
          (face_voter ''F2'' (Some ''MOHAN'') [Some 0.14877]))
       (f_const exact_arith 5)
     = Some 90.123
   \<and> map confidence_score (detect_scenario_2_fake_face exact_arith euclidean_distance
      [face_voter ''F1'' (Some ''RAM'') [Some 0],
       face_voter ''F2'' (Some ''MOHAN'') [Some 0.14877]])
     \<noteq> [f_add exact_arith
          (similarity_percent exact_arith euclidean_distance
             (face_voter ''F1'' (Some ''RAM'') [Some 0])
             (face_voter ''F2'' (Some ''MOHAN'') [Some 0.14877]))
          (f_const exact_arith 5)]"
  by (simp add: detect_scenario_2_two fake_face_pair_eval face_voter_eval exact_arith_eval
        py_round_def round_half_even_def)




section \<open>Photo-hash deduplicator\<close>


lemma duplicate_photo_pair_fields:
  assumes "duplicate_photo_pair hash_sub e1 e2 = Some f"
  shows "card_1 f = fst e1 \<and> card_2 f = fst e2 \<and>
         hash_difference f = hash_distance hash_sub e1 e2 \<and>
         Some (likelihood f) = photo_classification (hash_distance hash_sub e1 e2) \<and>
         photo_similarity f
           = py_round ((1 - real (hash_distance hash_sub e1 e2) / 64) * 100) 2 \<and>
         is_DUPLICATE_PHOTO f"
  using assms
  by (cases e1; cases e2)
     (auto simp: duplicate_photo_pair_def photo_classification_def hash_distance_def Let_def
        split: if_splits)


lemma detect_exact_duplicate_photos_scan:
  "detect_exact_duplicate_photos average_hash hash_sub df
   = scan_pairs (duplicate_photo_pair hash_sub)
       (photo_hashes average_hash (filter (\<lambda>r. face_path r \<noteq> None) df))"
proof (cases "length (filter (\<lambda>r. face_path r \<noteq> None) df) < 2")
  case False
  then show ?thesis by (simp add: detect_exact_duplicate_photos_def Let_def)
next
  case True
  have "length (photo_hashes average_hash (filter (\<lambda>r. face_path r \<noteq> None) df))
        \<le> length (filter (\<lambda>r. face_path r \<noteq> None) df)"
    by (simp only: photo_hashes_def List.map_filter_def length_map length_filter_le)
  then have "pairs (photo_hashes average_hash (filter (\<lambda>r. face_path r \<noteq> None) df)) = []"
    using True by (intro pairs_short) simp
  then show ?thesis
    using True
    by (simp add: detect_exact_duplicate_photos_def Let_def scan_pairs_def
          List.map_filter_simps)
qed

lemma hamming_bits: "k \<le> 256 \<Longrightarrow> hamming (bits 0) (bits k) = k"
proof -
  assume k: "k \<le> 256"
  then have "replicate 256 False = replicate k False @ replicate (256 - k) False"
    by (simp add: replicate_add [symmetric])
  then show ?thesis
    by (simp add: hamming_def bits_def)
qed

lemma example_hash_eval:
  "example_hash ''p0.jpg'' = Some (bits 0)" "example_hash ''p8.jpg'' = Some (bits 8)"
  by (simp_all add: example_hash_def)

lemma photo_hashes_two:
  "photo_hashes example_hash
     (filter (\<lambda>r. face_path r \<noteq> None) [photo_voter ''P1'' ''p0.jpg'', photo_voter ''P2'' ''p8.jpg''])
   = [(''P1'', bits 0, photo_voter ''P1'' ''p0.jpg''), (''P2'', bits 8, photo_voter ''P2'' ''p8.jpg'')]"
  by (simp add: photo_hashes_def List.map_filter_simps photo_voter_def example_hash_eval)



text \<open>
  C5. The photo similarity divides the Hamming distance by 64, whatever the length of the
  hashes. For two hashes of 256 bits that differ in 8 positions the deduplicator reports
  87.5, where the distance over the bit length gives 96.875.
\<close>

theorem photo_similarity_divides_by_64:
  "length (bits 0) = 256 \<and> length (bits 8) = 256 \<and> hamming (bits 0) (bits 8) = 8
   \<and> map photo_similarity
       (detect_exact_duplicate_photos example_hash hamming
          [photo_voter ''P1'' ''p0.jpg'', photo_voter ''P2'' ''p8.jpg''])
     = [87.5]
   \<and> (1 - 8 / 256) * 100 = (96.875 :: real)"
proof -
  have "detect_exact_duplicate_photos example_hash hamming
          [photo_voter ''P1'' ''p0.jpg'', photo_voter ''P2'' ''p8.jpg'']
      = [DUPLICATE_PHOTO ''P1'' ''P2'' ''N/A'' ''N/A'' ''N/A'' ''N/A''
           (py_round ((1 - 8 / 64) * 100) 2) 8 ''VERY SIMILAR PHOTO - LIKELY FRAUD'']"
    unfolding detect_exact_duplicate_photos_scan photo_hashes_two scan_pairs_two
    by (simp add: duplicate_photo_pair_def hamming_bits Let_def photo_voter_def or_na_def)
  moreover have "py_round ((1 - 8 / 64) * 100) 2 = 87.5"
    by (simp add: py_round_def round_half_even_def)
  moreover have "length (bits 0) = 256 \<and> length (bits 8) = 256"
    by (simp add: bits_def)
  moreover have "hamming (bits 0) (bits 8) = 8"
    by (simp add: hamming_bits)
  ultimately show ?thesis
    by simp
qed

section \<open>Every pair at most once\<close>

lemma pairs_map: "pairs (map f xs) = map (\<lambda>(a, b). (f a, f b)) (pairs xs)"
  by (induction xs) (simp_all add: pairs_Nil pairs_Cons)

lemma scan_pairs_cards:
  assumes "\<And>x y f. body x y = Some f \<Longrightarrow> card_1 f = k x \<and> card_2 f = k y"
  shows "map (\<lambda>f. (card_1 f, card_2 f)) (scan_pairs body xs)
       = map (\<lambda>(x, y). (k x, k y)) (filter (\<lambda>(x, y). body x y \<noteq> None) (pairs xs))"
proof (rule scan_pairs_map_filter)
  fix x y f
  assume "body x y = Some f"
  from assms [OF this] show "(card_1 f, card_2 f) = (k x, k y)" by simp
next
  fix x y
  show "body x y \<noteq> None \<longleftrightarrow> body x y \<noteq> None" ..
qed

lemma scenario_1_cards:
  "\<exists>A. map (\<lambda>f. (card_1 f, card_2 f)) (detect_scenario_1_fake_details df)
       = map (\<lambda>(r1, r2). (card_id r1, card_id r2)) (filter A (pairs df))"
proof -
  have "map (\<lambda>f. (card_1 f, card_2 f)) (detect_scenario_1_fake_details df)
      = map (\<lambda>(x, y). (card_id x, card_id y))
          (filter (\<lambda>(x, y). fake_details_pair x y \<noteq> None) (pairs df))"
    unfolding detect_scenario_1_fake_details_def
    using fake_details_pair_fields by (intro scan_pairs_cards) blast
  then show ?thesis by blast
qed

lemma scenario_2_cards:
  "\<exists>A. map (\<lambda>f. (card_1 f, card_2 f)) (detect_scenario_2_fake_face fl face_distance df)
       = map (\<lambda>(r1, r2). (card_id r1, card_id r2)) (filter A (pairs df))"
proof -
  have "map (\<lambda>f. (card_1 f, card_2 f)) (detect_scenario_2_fake_face fl face_distance df)
      = map (\<lambda>(x, y). (card_id x, card_id y))
          (filter (\<lambda>(x, y). fake_face_pair fl face_distance x y \<noteq> None)
             (pairs (filter (\<lambda>r. face_encoding r \<noteq> None) df)))"
    unfolding detect_scenario_2_scan
    using fake_face_pair_fields by (intro scan_pairs_cards) blast
  then show ?thesis
    unfolding pairs_filter filter_filter by blast
qed

lemma photo_hashes_map:
  "photo_hashes average_hash rows
   = map (\<lambda>r. (card_id r, the (average_hash (the (face_path r))), r))
       (filter (\<lambda>r. average_hash (the (face_path r)) \<noteq> None) rows)"
  by (induction rows)
     (auto simp: photo_hashes_def List.map_filter_simps split: option.splits)

lemma scenario_2b_cards:
  "\<exists>A. map (\<lambda>f. (card_1 f, card_2 f)) (detect_exact_duplicate_photos average_hash hash_sub df)
       = map (\<lambda>(r1, r2). (card_id r1, card_id r2)) (filter A (pairs df))"
proof -
  let ?G = "\<lambda>r. (card_id r, the (average_hash (the (face_path r))), r)"
  let ?Q = "\<lambda>r. face_path r \<noteq> None \<and> average_hash (the (face_path r)) \<noteq> None"
  let ?B = "\<lambda>(x, y). duplicate_photo_pair hash_sub x y \<noteq> None"
  have h: "photo_hashes average_hash (filter (\<lambda>r. face_path r \<noteq> None) df) = map ?G (filter ?Q df)"
    unfolding photo_hashes_map filter_filter by (metis (mono_tags, lifting) filter_cong)
  have "map (\<lambda>f. (card_1 f, card_2 f)) (detect_exact_duplicate_photos average_hash hash_sub df)
      = map (\<lambda>(x, y). (fst x, fst y)) (filter ?B (pairs (map ?G (filter ?Q df))))"
    unfolding detect_exact_duplicate_photos_scan h
    using duplicate_photo_pair_fields by (intro scan_pairs_cards) blast
  also have "\<dots> = map (\<lambda>(r1, r2). (card_id r1, card_id r2))
       (filter (\<lambda>(r1, r2). ?B (?G r1, ?G r2) \<and> ?Q r1 \<and> ?Q r2) (pairs df))"
    unfolding pairs_map pairs_filter filter_map filter_filter map_map
    by (auto intro!: map_cong filter_cong simp: comp_def)
  finally show ?thesis by blast
qed

lemma distinct_key_index:
  assumes "distinct (map k xs)" "i < length xs" "j < length xs" "k (xs ! i) = k (xs ! j)"
  shows "i = j"
proof -
  have "map k xs ! i = map k xs ! j" using assms by simp
  then show ?thesis
    using nth_eq_iff_index_eq [OF assms(1), of i j] assms(2,3) by simp
qed

lemma filtered_scan_once:
  assumes cs: "map (\<lambda>f. (card_1 f, card_2 f)) fs
             = map (\<lambda>(r1, r2). (card_id r1, card_id r2)) (filter A (pairs df))"
  shows "subseq (map (\<lambda>f. (card_1 f, card_2 f)) fs) (scan_cards df)"
    and "distinct (map card_id df) \<Longrightarrow> pairwise_once df fs"
proof -
  show "subseq (map (\<lambda>f. (card_1 f, card_2 f)) fs) (scan_cards df)"
    unfolding cs scan_cards_def by (intro subseq_map subseq_filter_left)
next
  assume d: "distinct (map card_id df)"
  have d1: "distinct (map (\<lambda>f. (card_1 f, card_2 f)) fs)"
    unfolding cs using distinct_pairs_keys [OF d] by (rule distinct_map_filter)
  have pos: "\<exists>i j. i < j \<and> j < length df \<and> card_1 f = card_id (df ! i)
               \<and> card_2 f = card_id (df ! j)" if "f \<in> set fs" for f
  proof -
    have "(card_1 f, card_2 f) \<in> set (map (\<lambda>f. (card_1 f, card_2 f)) fs)"
      using that by force
    then obtain r1 r2 where "(r1, r2) \<in> set (pairs df)" "card_1 f = card_id r1"
      "card_2 f = card_id r2"
      unfolding cs by auto
    then show ?thesis by (auto simp: set_pairs)
  qed
  have rev: "\<not> (card_1 f = card_2 g \<and> card_2 f = card_1 g)"
    if fin: "f \<in> set fs" and gin: "g \<in> set fs" for f g
  proof
    assume e: "card_1 f = card_2 g \<and> card_2 f = card_1 g"
    obtain i j where ij: "i < j" "j < length df" "card_1 f = card_id (df ! i)"
      "card_2 f = card_id (df ! j)" using pos [OF fin] by blast
    obtain i' j' where ij': "i' < j'" "j' < length df" "card_1 g = card_id (df ! i')"
      "card_2 g = card_id (df ! j')" using pos [OF gin] by blast
    have "card_id (df ! i) = card_id (df ! j')" using e ij ij' by simp
    then have "i = j'" using d ij ij' by (intro distinct_key_index [of card_id df]) simp_all
    moreover have "card_id (df ! j) = card_id (df ! i')" using e ij ij' by simp
    then have "j = i'" using d ij ij' by (intro distinct_key_index [of card_id df]) simp_all
    ultimately show False using ij ij' by simp
  qed
  show "pairwise_once df fs"
    unfolding pairwise_once_def using d1 pos rev by (simp add: Bex_def) blast
qed

text \<open>
  C9. For each of the three pairwise matchers the card pairs of the findings are a
  subsequence of the card pairs of the scan, which lists every two records once, the
  earlier one first. Hence, where the card ids are unique, no two findings of a matcher
  carry the same pair, none carries a pair another one carries reversed, and the first
  card of a finding is the record met earlier in the scan.
\<close>

theorem pairwise_matchers_report_each_pair_once:
  "subseq (map (\<lambda>f. (card_1 f, card_2 f)) (detect_scenario_1_fake_details df)) (scan_cards df)
   \<and> subseq (map (\<lambda>f. (card_1 f, card_2 f)) (detect_scenario_2_fake_face fl face_distance df))
        (scan_cards df)
   \<and> subseq (map (\<lambda>f. (card_1 f, card_2 f))
               (detect_exact_duplicate_photos average_hash hash_sub df))
        (scan_cards df)
   \<and> (distinct (map card_id df) \<longrightarrow>
        pairwise_once df (detect_scenario_1_fake_details df)
        \<and> pairwise_once df (detect_scenario_2_fake_face fl face_distance df)
        \<and> pairwise_once df (detect_exact_duplicate_photos average_hash hash_sub df))"
proof -
  obtain A1 where a1: "map (\<lambda>f. (card_1 f, card_2 f)) (detect_scenario_1_fake_details df)
       = map (\<lambda>(r1, r2). (card_id r1, card_id r2)) (filter A1 (pairs df))"
    using scenario_1_cards by blast
  obtain A2 where a2: "map (\<lambda>f. (card_1 f, card_2 f))
         (detect_scenario_2_fake_face fl face_distance df)
       = map (\<lambda>(r1, r2). (card_id r1, card_id r2)) (filter A2 (pairs df))"
    using scenario_2_cards by blast
  obtain A3 where a3: "map (\<lambda>f. (card_1 f, card_2 f))
         (detect_exact_duplicate_photos average_hash hash_sub df)
       = map (\<lambda>(r1, r2). (card_id r1, card_id r2)) (filter A3 (pairs df))"
    using scenario_2b_cards by blast
  show ?thesis
    using filtered_scan_once [OF a1] filtered_scan_once [OF a2] filtered_scan_once [OF a3]
    by blast
qed

theorem pairwise_matchers_report_each_pair_once_witness:
  "distinct (map card_id
      [voter ''A1'' (Some ''RAM'') (Some ''SHYAM'') (Some 40) None,
       voter ''A2'' (Some ''RAM'') (Some ''SHYAM'') None (Some ''M'')])
   \<and> pairwise_once
      [voter ''A1'' (Some ''RAM'') (Some ''SHYAM'') (Some 40) None,
       voter ''A2'' (Some ''RAM'') (Some ''SHYAM'') None (Some ''M'')]
      (detect_scenario_1_fake_details
        [voter ''A1'' (Some ''RAM'') (Some ''SHYAM'') (Some 40) None,
         voter ''A2'' (Some ''RAM'') (Some ''SHYAM'') None (Some ''M'')])
   \<and> map (\<lambda>f. (card_1 f, card_2 f)) (detect_scenario_1_fake_details
        [voter ''A1'' (Some ''RAM'') (Some ''SHYAM'') (Some 40) None,
         voter ''A2'' (Some ''RAM'') (Some ''SHYAM'') None (Some ''M'')])
      = [(''A1'', ''A2'')]"
proof -
  let ?df = "[voter ''A1'' (Some ''RAM'') (Some ''SHYAM'') (Some 40) None,
       voter ''A2'' (Some ''RAM'') (Some ''SHYAM'') None (Some ''M'')]"
  have d: "distinct (map card_id ?df)"
    by (simp add: voter_def)
  have e: "map (\<lambda>f. (card_1 f, card_2 f)) (detect_scenario_1_fake_details ?df)
      = [(''A1'', ''A2'')]"
    by (simp add: detect_scenario_1_fake_details_def scan_pairs_two fake_details_pair_def
          voter_def)
  show ?thesis
    using pairwise_matchers_report_each_pair_once [of ?df exact_arith euclidean_distance example_hash hamming] d e
    by simp
qed

section \<open>Address-anomaly detector\<close>

lemma filter_eq_distinct:
  "distinct ks \<Longrightarrow> filter (\<lambda>k. k = h \<and> P k) ks = (if h \<in> set ks \<and> P h then [h] else [])"
  by (induction ks) auto

lemma voters_at_present:
  "length (filter (\<lambda>r. house_number r = Some h) (filter (\<lambda>r. house_number r \<noteq> None) df))
   = voters_at df h"
proof -
  have "filter (\<lambda>r. house_number r = Some h) (filter (\<lambda>r. house_number r \<noteq> None) df)
      = filter (\<lambda>r. house_number r = Some h) df"
    by (induction df) auto
  then show ?thesis by (simp only: voters_at_def)
qed

lemma voters_at_pos:
  "h \<in> (\<lambda>r. the (house_number r)) ` set (filter (\<lambda>r. house_number r \<noteq> None) df)
   \<longleftrightarrow> 0 < voters_at df h"
proof -
  have "0 < voters_at df h \<longleftrightarrow> (\<exists>r\<in>set df. house_number r = Some h)"
    by (simp add: voters_at_def length_greater_0_conv filter_empty_conv)
  then show ?thesis by force
qed

lemma address_anomaly_fields:
  "anomaly_house_number (address_anomaly rows (h, c)) = h"
  "voter_count (address_anomaly rows (h, c)) = c"
  "risk_level (address_anomaly rows (h, c))
     = (if 50 \<le> c then ''CRITICAL'' else if 40 \<le> c then ''HIGH'' else ''MEDIUM'')"
  "is_ADDRESS_ANOMALY (address_anomaly rows (h, c))"
  by (simp_all add: address_anomaly_def Let_def)

lemma detect_address_anomalies_at_house:
  "filter (\<lambda>f. anomaly_house_number f = h) (detect_address_anomalies t df)
   = (if 0 < voters_at df h \<and> t \<le> voters_at df h
      then [address_anomaly (filter (\<lambda>r. house_number r \<noteq> None) df) (h, voters_at df h)]
      else [])"
proof -
  define rows where "rows = filter (\<lambda>r. house_number r \<noteq> None) df"
  define ks where "ks = sort (remdups (map (\<lambda>r. the (house_number r)) rows))"
  have hc: "house_counts rows = map (\<lambda>k. (k, voters_at df k)) ks"
    unfolding rows_def ks_def by (simp only: house_counts_def voters_at_present)
  have d0: "detect_address_anomalies t df
      = (if length rows = 0 then []
         else map (address_anomaly rows) (filter (\<lambda>(h, c). t \<le> c) (house_counts rows)))"
    unfolding rows_def by (simp only: detect_address_anomalies_def Let_def)
  have d: "detect_address_anomalies t df
      = map (\<lambda>k. address_anomaly rows (k, voters_at df k))
          (filter (\<lambda>k. t \<le> voters_at df k) ks)"
  proof (cases "rows = []")
    case True
    then show ?thesis by (simp add: d0 ks_def)
  next
    case False
    then show ?thesis
      by (simp add: d0 hc filter_map comp_def)
  qed
  have dk: "distinct ks"
    by (simp add: ks_def)
  have mem: "h \<in> set ks \<longleftrightarrow> 0 < voters_at df h"
    using voters_at_pos [of h df] by (simp add: ks_def rows_def)
  have "filter (\<lambda>f. anomaly_house_number f = h) (detect_address_anomalies t df)
      = map (\<lambda>k. address_anomaly rows (k, voters_at df k))
          (filter (\<lambda>k. k = h \<and> t \<le> voters_at df k) ks)"
    unfolding d by (simp add: filter_map comp_def address_anomaly_fields conj_commute)
  also have "filter (\<lambda>k. k = h \<and> t \<le> voters_at df k) ks
      = (if h \<in> set ks \<and> t \<le> voters_at df h then [h] else [])"
    using dk by (rule filter_eq_distinct)
  finally show ?thesis
    by (simp add: mem rows_def)
qed

lemma detect_address_anomalies_kind:
  "f \<in> set (detect_address_anomalies t df) \<Longrightarrow> is_ADDRESS_ANOMALY f"
  by (auto simp: detect_address_anomalies_def Let_def address_anomaly_fields split: if_splits)

lemma example_street_counts:
  "voters_at example_street ''12'' = 30" "voters_at example_street ''7'' = 1"
  by (simp_all add: voters_at_def example_street_def house_voter_def voter_def
        filter_map comp_def)

text \<open>
  C7. Records are grouped by their present house number, compared as text. Each group
  whose size reaches the threshold gets exactly one ADDRESS_ANOMALY finding, whose voter
  count is the size of the group, and a smaller group gets none. At the default
  threshold 30 the risk level follows \<open>risk_tier\<close>: critical from 50, high from 40 to
  49, medium from 30 to 39; a group of 30 is medium, of 40 high, of 50 critical, and a
  group of 29 or less yields no finding.
\<close>

theorem detect_address_anomalies_tiers:
  "map (\<lambda>f. (voter_count f, risk_level f))
       (filter (\<lambda>f. anomaly_house_number f = h) (detect_address_anomalies 30 df))
     = (case risk_tier (voters_at df h) of
          None \<Rightarrow> [] | Some level \<Rightarrow> [(voters_at df h, level)])
   \<and> length (filter (\<lambda>f. anomaly_house_number f = h) (detect_address_anomalies t df))
     = (if 0 < voters_at df h \<and> t \<le> voters_at df h then 1 else 0)
   \<and> (\<forall>f\<in>set (detect_address_anomalies t df).
         is_ADDRESS_ANOMALY f \<and> voter_count f = voters_at df (anomaly_house_number f))
   \<and> (voters_at df h = 30 \<longrightarrow>
        map risk_level
          (filter (\<lambda>f. anomaly_house_number f = h) (detect_address_anomalies 30 df))
        = [''MEDIUM''])
   \<and> (voters_at df h = 40 \<longrightarrow>
        map risk_level
          (filter (\<lambda>f. anomaly_house_number f = h) (detect_address_anomalies 30 df))
        = [''HIGH''])
   \<and> (voters_at df h = 50 \<longrightarrow>
        map risk_level
          (filter (\<lambda>f. anomaly_house_number f = h) (detect_address_anomalies 30 df))
        = [''CRITICAL''])
   \<and> (voters_at df h \<le> 29 \<longrightarrow>
        filter (\<lambda>f. anomaly_house_number f = h) (detect_address_anomalies 30 df) = [])"
proof -
  have tier: "map (\<lambda>f. (voter_count f, risk_level f))
       (filter (\<lambda>f. anomaly_house_number f = h) (detect_address_anomalies 30 df))
     = (case risk_tier (voters_at df h) of
          None \<Rightarrow> [] | Some level \<Rightarrow> [(voters_at df h, level)])"
    by (simp add: detect_address_anomalies_at_house address_anomaly_fields risk_tier_def)
  have one: "length (filter (\<lambda>f. anomaly_house_number f = h) (detect_address_anomalies t df))
     = (if 0 < voters_at df h \<and> t \<le> voters_at df h then 1 else 0)"
    by (simp add: detect_address_anomalies_at_house)
  have each: "is_ADDRESS_ANOMALY f \<and> voter_count f = voters_at df (anomaly_house_number f)"
    if fin: "f \<in> set (detect_address_anomalies t df)" for f
  proof -
    have "f \<in> set (filter (\<lambda>g. anomaly_house_number g = anomaly_house_number f)
                    (detect_address_anomalies t df))"
      using fin by simp
    then have "f = address_anomaly (filter (\<lambda>r. house_number r \<noteq> None) df)
                 (anomaly_house_number f, voters_at df (anomaly_house_number f))"
      unfolding detect_address_anomalies_at_house by (simp split: if_splits)
    then have "voter_count f = voters_at df (anomaly_house_number f)"
      using address_anomaly_fields(2) by metis
    then show ?thesis using detect_address_anomalies_kind [OF fin] by simp
  qed
  have levels: "map risk_level
          (filter (\<lambda>f. anomaly_house_number f = h) (detect_address_anomalies 30 df))
        = (case risk_tier (voters_at df h) of None \<Rightarrow> [] | Some level \<Rightarrow> [level])"
    using arg_cong [OF tier, of "map snd"] by (simp add: comp_def split: option.splits)
  have m: "voters_at df h = 30 \<longrightarrow>
        map risk_level
          (filter (\<lambda>f. anomaly_house_number f = h) (detect_address_anomalies 30 df))
        = [''MEDIUM'']"
    unfolding levels by (simp add: risk_tier_def)
  have hi: "voters_at df h = 40 \<longrightarrow>
        map risk_level
          (filter (\<lambda>f. anomaly_house_number f = h) (detect_address_anomalies 30 df))
        = [''HIGH'']"
    unfolding levels by (simp add: risk_tier_def)
  have cr: "voters_at df h = 50 \<longrightarrow>
        map risk_level
          (filter (\<lambda>f. anomaly_house_number f = h) (detect_address_anomalies 30 df))
        = [''CRITICAL'']"
    unfolding levels by (simp add: risk_tier_def)
  have none: "voters_at df h \<le> 29 \<longrightarrow>
        filter (\<lambda>f. anomaly_house_number f = h) (detect_address_anomalies 30 df) = []"
    by (simp add: detect_address_anomalies_at_house)
  show ?thesis
    using tier one each m hi cr none by blast
qed

theorem detect_address_anomalies_tiers_witness:
  "voters_at example_street ''12'' = 30
   \<and> map risk_level
        (filter (\<lambda>f. anomaly_house_number f = ''12'')
           (detect_address_anomalies 30 example_street))
      = [''MEDIUM'']
   \<and> voters_at example_street ''7'' \<le> 29
   \<and> filter (\<lambda>f. anomaly_house_number f = ''7'')
        (detect_address_anomalies 30 example_street) = []"
  using detect_address_anomalies_tiers [of "''12''" example_street 30]
    detect_address_anomalies_tiers [of "''7''" example_street 30]
    example_street_counts
  by simp

section \<open>Finding aggregator\<close>

lemma set_scan_pairs:
  "f \<in> set (scan_pairs body xs)
   \<longleftrightarrow> (\<exists>x y. (x, y) \<in> set (pairs xs) \<and> body x y = Some f)"
proof -
  have "f \<in> set (List.map_filter (\<lambda>(x, y). body x y) ps)
        \<longleftrightarrow> (\<exists>x y. (x, y) \<in> set ps \<and> body x y = Some f)" for ps
    by (induction ps) (auto simp: List.map_filter_simps split: option.splits)
  then show ?thesis by (simp only: scan_pairs_def)
qed

lemma scan_pairs_all:
  assumes "\<And>x y f. body x y = Some f \<Longrightarrow> P f"
  shows "list_all P (scan_pairs body xs)"
proof -
  have "P f" if "f \<in> set (scan_pairs body xs)" for f
    using that assms unfolding set_scan_pairs by blast
  then show ?thesis by (simp add: list_all_iff)
qed

lemma scenario_1_kind:
  "list_all is_FAKE_DETAILS (detect_scenario_1_fake_details df)"
  unfolding detect_scenario_1_fake_details_def
  by (rule scan_pairs_all) (simp add: fake_details_pair_fields)

lemma scenario_2_kind:
  "list_all is_FAKE_FACE (detect_scenario_2_fake_face fl face_distance df)"
  unfolding detect_scenario_2_scan
  by (rule scan_pairs_all) (simp add: fake_face_pair_fields)

lemma scenario_2b_kind:
  "list_all is_DUPLICATE_PHOTO (detect_exact_duplicate_photos average_hash hash_sub df)"
  unfolding detect_exact_duplicate_photos_scan
  by (rule scan_pairs_all) (simp add: duplicate_photo_pair_fields)

lemma scenario_3_kind:
  "list_all is_ADDRESS_ANOMALY (detect_address_anomalies t df)"
  unfolding list_all_iff using detect_address_anomalies_kind by blast

lemma detect_all_frauds_concat:
  "detect_all_frauds fl face_distance average_hash hash_sub df
   = Inr (detect_scenario_1_fake_details df
          @ detect_scenario_2_fake_face fl face_distance df
          @ detect_exact_duplicate_photos average_hash hash_sub df
          @ detect_address_anomalies 30 df)"
  by (simp add: detect_all_frauds_def Let_def)


text \<open>
  C8. The run returns the findings of the exact-detail matcher, then those of the face
  matcher, then those of the photo deduplicator, then the address anomalies, each block
  as its matcher produced it and of its own kind. Nothing is merged: a scanned pair that
  meets the exact-detail criteria and that the face matcher accepts (both records have an
  encoding and the similarity percentage is not below 80) is reported by a FAKE_DETAILS
  finding and by a FAKE_FACE finding.
\<close>

theorem detect_all_frauds_concatenates:
  "detect_all_frauds fl face_distance average_hash hash_sub df
   = Inr (detect_scenario_1_fake_details df
          @ detect_scenario_2_fake_face fl face_distance df
          @ detect_exact_duplicate_photos average_hash hash_sub df
          @ detect_address_anomalies 30 df)
   \<and> list_all is_FAKE_DETAILS (detect_scenario_1_fake_details df)
   \<and> list_all is_FAKE_FACE (detect_scenario_2_fake_face fl face_distance df)
   \<and> list_all is_DUPLICATE_PHOTO (detect_exact_duplicate_photos average_hash hash_sub df)
   \<and> list_all is_ADDRESS_ANOMALY (detect_address_anomalies 30 df)
   \<and> ((r1, r2) \<in> set (pairs df) \<and> exact_detail_criteria r1 r2
        \<and> face_encoding r1 \<noteq> None \<and> face_encoding r2 \<noteq> None
        \<and> \<not> f_lt fl (similarity_percent fl face_distance r1 r2) (f_const fl 80)
      \<longrightarrow> (\<exists>fs f g. detect_all_frauds fl face_distance average_hash hash_sub df = Inr fs
            \<and> f \<in> set fs \<and> g \<in> set fs \<and> is_FAKE_DETAILS f \<and> is_FAKE_FACE g
            \<and> card_1 f = card_id r1 \<and> card_2 f = card_id r2
            \<and> card_1 g = card_id r1 \<and> card_2 g = card_id r2))"
proof (intro conjI impI)
  assume a: "(r1, r2) \<in> set (pairs df) \<and> exact_detail_criteria r1 r2
        \<and> face_encoding r1 \<noteq> None \<and> face_encoding r2 \<noteq> None
        \<and> \<not> f_lt fl (similarity_percent fl face_distance r1 r2) (f_const fl 80)"
  obtain f where f: "fake_details_pair r1 r2 = Some f"
    using a fake_details_pair_iff [of r1 r2] by auto
  obtain g where g: "fake_face_pair fl face_distance r1 r2 = Some g"
    using a fake_face_pair_iff [of fl face_distance r1 r2] by auto
  have fin: "f \<in> set (detect_scenario_1_fake_details df)"
    unfolding detect_scenario_1_fake_details_def set_scan_pairs using a f by blast
  have "(r1, r2) \<in> set (pairs (filter (\<lambda>r. face_encoding r \<noteq> None) df))"
    unfolding pairs_filter using a by simp
  then have gin: "g \<in> set (detect_scenario_2_fake_face fl face_distance df)"
    unfolding detect_scenario_2_scan set_scan_pairs using g by blast
  let ?fs = "detect_scenario_1_fake_details df
          @ detect_scenario_2_fake_face fl face_distance df
          @ detect_exact_duplicate_photos average_hash hash_sub df
          @ detect_address_anomalies 30 df"
  have "detect_all_frauds fl face_distance average_hash hash_sub df = Inr ?fs
            \<and> f \<in> set ?fs \<and> g \<in> set ?fs \<and> is_FAKE_DETAILS f \<and> is_FAKE_FACE g
            \<and> card_1 f = card_id r1 \<and> card_2 f = card_id r2
            \<and> card_1 g = card_id r1 \<and> card_2 g = card_id r2"
    using fin gin fake_details_pair_fields [OF f] fake_face_pair_fields [OF g]
    by (simp add: detect_all_frauds_concat)
  then show "\<exists>fs f g. detect_all_frauds fl face_distance average_hash hash_sub df = Inr fs
            \<and> f \<in> set fs \<and> g \<in> set fs \<and> is_FAKE_DETAILS f \<and> is_FAKE_FACE g
            \<and> card_1 f = card_id r1 \<and> card_2 f = card_id r2
            \<and> card_1 g = card_id r1 \<and> card_2 g = card_id r2"
    by blast
qed (simp_all only: detect_all_frauds_concat scenario_1_kind scenario_2_kind
       scenario_2b_kind scenario_3_kind)

theorem detect_all_frauds_concatenates_witness:
  "(example_twins ! 0, example_twins ! 1) \<in> set (pairs example_twins)
   \<and> exact_detail_criteria (example_twins ! 0) (example_twins ! 1)
   \<and> similarity_percent exact_arith euclidean_distance (example_twins ! 0) (example_twins ! 1)
     = Some 90
   \<and> (\<exists>fs f g. detect_all_frauds exact_arith euclidean_distance example_hash hamming example_twins = Inr fs
            \<and> f \<in> set fs \<and> g \<in> set fs \<and> is_FAKE_DETAILS f \<and> is_FAKE_FACE g
            \<and> card_1 f = ''A1'' \<and> card_2 f = ''A2''
            \<and> card_1 g = ''A1'' \<and> card_2 g = ''A2'')"
proof -
  have p: "(example_twins ! 0, example_twins ! 1) \<in> set (pairs example_twins)"
    by (simp add: example_twins_def pairs_Cons pairs_Nil)
  have c: "exact_detail_criteria (example_twins ! 0) (example_twins ! 1)"
    by (simp add: example_twins_def exact_detail_criteria_def both_present_equal_def voter_def)
  have e: "face_encoding (example_twins ! 0) \<noteq> None" "face_encoding (example_twins ! 1) \<noteq> None"
    by (simp_all add: example_twins_def)
  have s: "similarity_percent exact_arith euclidean_distance (example_twins ! 0) (example_twins ! 1)
      = Some 90"
    by (simp add: example_twins_def similarity_percent_def euclidean_distance_single
          exact_arith_eval)
  have i: "card_id (example_twins ! 0) = ''A1''" "card_id (example_twins ! 1) = ''A2''"
    by (simp_all add: example_twins_def voter_def)
  have "\<not> f_lt exact_arith
           (similarity_percent exact_arith euclidean_distance (example_twins ! 0) (example_twins ! 1))
           (f_const exact_arith 80)"
    unfolding s by (simp add: exact_arith_eval)
  then have "\<exists>fs f g. detect_all_frauds exact_arith euclidean_distance example_hash hamming example_twins = Inr fs
            \<and> f \<in> set fs \<and> g \<in> set fs \<and> is_FAKE_DETAILS f \<and> is_FAKE_FACE g
            \<and> card_1 f = card_id (example_twins ! 0) \<and> card_2 f = card_id (example_twins ! 1)
            \<and> card_1 g = card_id (example_twins ! 0) \<and> card_2 g = card_id (example_twins ! 1)"
    using detect_all_frauds_concatenates
      [of exact_arith euclidean_distance example_hash hamming example_twins
          "example_twins ! 0" "example_twins ! 1"]
      p c e
    by blast
  then show ?thesis
    using p c s unfolding i by blast
qed





end
